theory Spec2Isabelle
  imports Main "HOL-Library.Word"
begin

section \<open>The command-line harness: \<^verbatim>\<open>src/ffi/main.c\<close>\<close>

text \<open>
  The C program has one function, \<^verbatim>\<open>main\<close>, and two external functions that it only
  declares: \<^verbatim>\<open>slp_new_from_file\<close> (the decoder) and \<^verbatim>\<open>slp_free\<close> (the release of
  the buffer).

  \<^item> \<^verbatim>\<open>size_t\<close> and \<^verbatim>\<open>ssize_t\<close> are the words of the machine: \<open>'w word\<close>, of
    \<open>LENGTH('w)\<close> bits, read with \<open>unat\<close> where the C type is unsigned and with
    \<open>sint\<close> where it is signed. The width stays a type variable: 32 bits on an
    ILP32 platform, 64 bits on LP64 and LLP64.
  \<^item> \<^verbatim>\<open>int\<close> has 32 bits, as on every ILP32, LP64 and LLP64 platform.
  \<^item> A \<^verbatim>\<open>char *\<close> is an address, \<^verbatim>\<open>NULL\<close> being 0; a C string is a \<open>string\<close>.
  \<^item> What the program does to the outside is a trace of events, in order: each
    \<^verbatim>\<open>printf\<close> (format string and arguments) and each call of an external function.
  \<^item> The program's status is the value \<^verbatim>\<open>main\<close> returns; what the operating system
    keeps of it is outside the C source.
\<close>

type_synonym int_t = "32 word"
type_synonym ptr = nat

definition NULL :: ptr where
  "NULL = 0"

datatype 'sz event =
    Printf string "'sz list"
  | Call_slp_new_from_file string
  | Call_slp_free ptr 'sz

text \<open>
  \<^verbatim>\<open>slp_new_from_file(file_path, &image_data_buff, &width, &height)\<close> returns a
  \<^verbatim>\<open>ssize_t\<close> and may write through its three out-pointers. Its body is not part of the
  C file, so \<^verbatim>\<open>main\<close> takes it as a parameter: a function of the path and of what the three
  locations hold before the call, to the returned value and what they hold afterwards.
\<close>

record 'sz slp_new_from_file_result =
  returned :: 'sz
  image_data_buff :: ptr
  width :: 'sz
  height :: 'sz

definition ERR_NO_ARG :: int_t where
  "ERR_NO_ARG = 1"

text \<open>
  \<^verbatim>\<open>main(argc, argv)\<close>. The C runtime passes \<^verbatim>\<open>argc\<close> as the number of entries of
  \<^verbatim>\<open>argv\<close>, so the model takes \<open>argv\<close> and reads \<^verbatim>\<open>argc\<close> as its length; \<open>argv ! 1\<close>
  is read only when that length is 2.

  \<^verbatim>\<open>switch (code)\<close> compares the value of \<^verbatim>\<open>code\<close> with each case constant
  after bringing both to one signed type that holds them, so it compares signed values:
  \<open>sint code\<close> with the constant.

  \<^verbatim>\<open>return code\<close> converts the \<^verbatim>\<open>ssize_t\<close> to \<^verbatim>\<open>int\<close>: \<open>scast\<close>, which keeps the
  signed value when it fits and reduces it modulo \<open>2 ^ 32\<close> otherwise (the rule of GCC,
  Clang and MSVC for this implementation-defined conversion). On success control
  reaches the closing brace of \<^verbatim>\<open>main\<close>, which returns 0 (C99, 5.1.2.2.3).
\<close>

definition main ::
  "string list \<Rightarrow>
   (string \<Rightarrow> ptr \<Rightarrow> 'w word \<Rightarrow> 'w word \<Rightarrow> 'w word slp_new_from_file_result) \<Rightarrow>
   'w::len word event list \<times> int_t" where
  "main argv slp_new_from_file =
     (if length argv \<noteq> 2 then
        ([Printf ''usage: cslp <path/to/your.slp>\<newline>'' []], ERR_NO_ARG)
      else
        let file_path = argv ! 1;
            r = slp_new_from_file file_path NULL 0 0;
            code = returned r;
            ptr_image_data = image_data_buff r;
            frame_width = width r;
            frame_height = height r
        in
          if code \<noteq> 0 then
            (Call_slp_new_from_file file_path #
               (if sint code = 1 then [Printf '''file_path' was null!'' []]
                else if sint code = 2 then
                  [Printf '''file_path' contained non-utf8 characters!'' []]
                else if sint code = - 1 then [Printf ''Invalid SLP!'' []]
                else if sint code = - 2 then [Printf ''SLP had a bad length'' []]
                else if sint code = - 32767 then
                  [Printf ''An unknown error occurred while decoding the SLP'' []]
                else []),
             scast code)
          else
            ([Call_slp_new_from_file file_path,
              Printf ''image_data_len: %zu\<newline>'' [frame_width * frame_height],
              Call_slp_free ptr_image_data (frame_width * frame_height)],
             0))"

text \<open>The calls of \<^verbatim>\<open>slp_free\<close> in a trace, in order: the buffer and the length passed.\<close>

fun slp_free_calls :: "'sz event list \<Rightarrow> (ptr \<times> 'sz) list" where
  "slp_free_calls [] = []"
| "slp_free_calls (Call_slp_free p n # es) = (p, n) # slp_free_calls es"
| "slp_free_calls (_ # es) = slp_free_calls es"

text \<open>The paths \<^verbatim>\<open>slp_new_from_file\<close> was called with in a trace, in order.\<close>

fun slp_new_from_file_calls :: "'sz event list \<Rightarrow> string list" where
  "slp_new_from_file_calls [] = []"
| "slp_new_from_file_calls (Call_slp_new_from_file p # es) = p # slp_new_from_file_calls es"
| "slp_new_from_file_calls (_ # es) = slp_new_from_file_calls es"

text \<open>The messages printed in a trace, in order.\<close>

fun printed :: "'sz event list \<Rightarrow> (string \<times> 'sz list) list" where
  "printed [] = []"
| "printed (Printf fmt args # es) = (fmt, args) # printed es"
| "printed (_ # es) = printed es"

text \<open>
  A decoder that answers \<open>r\<close> whatever it is called with: it stands for
  \<^verbatim>\<open>slp_new_from_file\<close> where \<open>main\<close> is run on a concrete input.
\<close>

definition decoder_returning ::
  "'sz slp_new_from_file_result \<Rightarrow> string \<Rightarrow> ptr \<Rightarrow> 'sz \<Rightarrow> 'sz \<Rightarrow> 'sz slp_new_from_file_result" where
  "decoder_returning r file_path buff w h = r"

section \<open>The decoding engine, modelled from the specification\<close>

text \<open>
  The harness only declares \<^verbatim>\<open>slp_new_from_file\<close>: the decoder's code is not among the
  sources. This section models the decoder from sections 2 to 7 of the specification,
  from the bytes of the container (the path has been read) to the result at the
  boundary. Every definition of the section is such a model. What the specification
  leaves open (the magic tag, the sizes of the header fields, the byte encoding of the
  commands, where a frame's row offsets lie) is a parameter, collected in
  \<open>slp_format\<close>.
\<close>

text \<open>
  Modelled from the spec: the bytes of the container and the pixel values of the buffer,
  0 being the transparent pixel (section 3).
\<close>

type_synonym byte = "8 word"
type_synonym pixel = nat

text \<open>
  Modelled from the spec: the error kinds named in sections 4.1 to 4.5 (the decoder's
  code is missing from the sources).
\<close>

datatype decode_error =
    OutOfBounds
  | InvalidFormat
  | TruncatedHeader
  | BadDirectoryEntry
  | RowLengthMismatch
  | RowOverrun
  | UnknownCommand
  | PaletteIndexOutOfRange

text \<open>
  Modelled from the spec: the status code of each error kind at the boundary
  (sections 6 and 7). \<open>- 1\<close> is failed format validation; \<open>- 2\<close> is lengths inconsistent
  with the size of the container (truncation, a directory or offset mismatch, and so a
  read outside the container); \<open>- 32767\<close> is every interpretation error. A truncated
  header is counted as a truncation.
\<close>

fun status_code :: "decode_error \<Rightarrow> int" where
  "status_code InvalidFormat = - 1"
| "status_code TruncatedHeader = - 2"
| "status_code BadDirectoryEntry = - 2"
| "status_code OutOfBounds = - 2"
| "status_code RowLengthMismatch = - 32767"
| "status_code RowOverrun = - 32767"
| "status_code UnknownCommand = - 32767"
| "status_code PaletteIndexOutOfRange = - 32767"

subsection \<open>Byte cursor (section 4.1)\<close>

text \<open>
  Modelled from the spec: \<^verbatim>\<open>slice(offset, length)\<close> of the byte cursor, which fails with
  \<open>OutOfBounds\<close> if the read would exceed the container. Offsets are natural numbers:
  their sums do not wrap.
\<close>

definition slice :: "byte list \<Rightarrow> nat \<Rightarrow> nat \<Rightarrow> decode_error + byte list" where
  "slice c offset len =
     (if offset + len \<le> length c then Inr (take len (drop offset c)) else Inl OutOfBounds)"

text \<open>
  Modelled from the spec: \<^verbatim>\<open>read_u32_le(at_offset)\<close> of the byte cursor, a little-endian
  value of four bytes.
\<close>

definition read_u32_le :: "byte list \<Rightarrow> nat \<Rightarrow> decode_error + nat" where
  "read_u32_le c offset =
     (if offset + 4 \<le> length c then
        Inr (unat (c ! offset) + 256 * unat (c ! (offset + 1))
             + 65536 * unat (c ! (offset + 2)) + 16777216 * unat (c ! (offset + 3)))
      else Inl OutOfBounds)"

subsection \<open>Data model (section 3)\<close>

text \<open>
  Modelled from the spec: the commands of section 3. The count of \<open>RawPixels\<close> and of
  \<open>PlayerColorRun\<close> is the number of their palette indices.
\<close>

datatype command =
    RawPixels "byte list"
  | SkipTransparent nat
  | RepeatFill nat byte
  | PlayerColorRun "byte list"
  | ShadowRun nat
  | EndOfRow

text \<open>Modelled from the spec: the count a command declares (sections 3 and 4.4).\<close>

fun count :: "command \<Rightarrow> nat" where
  "count (RawPixels indices) = length indices"
| "count (SkipTransparent n) = n"
| "count (RepeatFill n v) = n"
| "count (PlayerColorRun indices) = length indices"
| "count (ShadowRun n) = n"
| "count EndOfRow = 0"

text \<open>Modelled from the spec: the header of section 3, with the directory offset of 4.2.\<close>

record header =
  version :: "byte list"
  frame_count :: nat
  comment :: "byte list"
  directory_offset :: nat

text \<open>Modelled from the spec: the frame descriptor of section 3.\<close>

record frame_descriptor =
  image_data_offset :: nat
  outline_data_offset :: nat
  fd_width :: nat
  fd_height :: nat
  anchor_x :: nat
  anchor_y :: nat

text \<open>
  Modelled from the spec: what the specification leaves to the format. The header is
  the magic tag, the version tag, the frame count and the comment, in the order of
  section 3; \<open>versions\<close> are the recognised version tags; \<open>max_dimension\<close> is the
  upper bound of section 4.3 on a width and a height. \<open>frame_rows\<close> is the row offset
  table with the one-command decoder of section 9: for a frame, the command stream of
  each row, read from the offset of the row on, in row order, or the failure of the
  cursor where a row offset is outside the container. An element of a stream is the
  command read, or \<open>None\<close> for a command byte outside all known families.
\<close>

record slp_format =
  magic :: "byte list"
  version_length :: nat
  versions :: "byte list list"
  comment_length :: nat
  max_dimension :: nat
  frame_rows :: "byte list \<Rightarrow> frame_descriptor \<Rightarrow> decode_error + command option list list"

text \<open>
  Modelled from the spec: the palette resolver's tables (section 4.5): the palette,
  the remap table of the selected player, and the fixed shadow colour.
\<close>

record resolver =
  palette :: "pixel list"
  player_remap :: "pixel list"
  shadow :: pixel

subsection \<open>Container header parser (section 4.2)\<close>

text \<open>Modelled from the spec: the fixed size of the header.\<close>

definition header_size :: "slp_format \<Rightarrow> nat" where
  "header_size fmt = length (magic fmt) + version_length fmt + 4 + comment_length fmt"

text \<open>
  Modelled from the spec: the header parser of section 4.2. \<open>TruncatedHeader\<close> if the
  container is shorter than the header; \<open>InvalidFormat\<close> if the magic tag differs in any
  byte or the version is not recognised. The frame directory begins after the header.
\<close>

definition parse_header :: "slp_format \<Rightarrow> byte list \<Rightarrow> decode_error + header" where
  "parse_header fmt c =
     (if length c < header_size fmt then Inl TruncatedHeader
      else
        (case slice c 0 (length (magic fmt)) of
           Inl e \<Rightarrow> Inl e
         | Inr m \<Rightarrow>
             if m \<noteq> magic fmt then Inl InvalidFormat
             else
               (case slice c (length (magic fmt)) (version_length fmt) of
                  Inl e \<Rightarrow> Inl e
                | Inr v \<Rightarrow>
                    if v \<notin> set (versions fmt) then Inl InvalidFormat
                    else
                      (case read_u32_le c (length (magic fmt) + version_length fmt) of
                         Inl e \<Rightarrow> Inl e
                       | Inr n \<Rightarrow>
                           (case slice c (length (magic fmt) + version_length fmt + 4)
                                   (comment_length fmt) of
                              Inl e \<Rightarrow> Inl e
                            | Inr cm \<Rightarrow>
                                Inr \<lparr>version = v, frame_count = n, comment = cm,
                                     directory_offset = header_size fmt\<rparr>)))))"

subsection \<open>Frame directory (section 4.3)\<close>

text \<open>
  Modelled from the spec: the fixed size of a descriptor. The specification names the
  six fields and says that they have a fixed width, not which; the model gives each
  four bytes, as it does to the frame count of the header.
\<close>

definition descriptor_size :: nat where
  "descriptor_size = 24"

text \<open>
  Modelled from the spec: one descriptor record read through the cursor, its fields in
  the order of section 3.
\<close>

definition read_descriptor :: "byte list \<Rightarrow> nat \<Rightarrow> decode_error + frame_descriptor" where
  "read_descriptor c offset =
     (case read_u32_le c offset of Inl e \<Rightarrow> Inl e | Inr image_off \<Rightarrow>
     (case read_u32_le c (offset + 4) of Inl e \<Rightarrow> Inl e | Inr outline_off \<Rightarrow>
     (case read_u32_le c (offset + 8) of Inl e \<Rightarrow> Inl e | Inr w \<Rightarrow>
     (case read_u32_le c (offset + 12) of Inl e \<Rightarrow> Inl e | Inr h \<Rightarrow>
     (case read_u32_le c (offset + 16) of Inl e \<Rightarrow> Inl e | Inr ax \<Rightarrow>
     (case read_u32_le c (offset + 20) of Inl e \<Rightarrow> Inl e | Inr ay \<Rightarrow>
        Inr \<lparr>image_data_offset = image_off, outline_data_offset = outline_off,
             fd_width = w, fd_height = h, anchor_x = ax, anchor_y = ay\<rparr>))))))"

text \<open>
  Modelled from the spec: the validation of a descriptor (section 4.3): the image data
  offset is less than the length of the container, the width and the height are within
  the upper bound.
\<close>

definition valid_descriptor :: "slp_format \<Rightarrow> byte list \<Rightarrow> frame_descriptor \<Rightarrow> bool" where
  "valid_descriptor fmt c d \<longleftrightarrow>
     image_data_offset d < length c
     \<and> fd_width d \<le> max_dimension fmt \<and> fd_height d \<le> max_dimension fmt"

text \<open>
  Modelled from the spec: the frame directory (section 4.3): \<open>n\<close> descriptors read from
  \<open>offset\<close> on, each validated; \<open>BadDirectoryEntry\<close> on any violation, and then no list
  of frames at all.
\<close>

fun read_directory ::
  "slp_format \<Rightarrow> byte list \<Rightarrow> nat \<Rightarrow> nat \<Rightarrow> decode_error + frame_descriptor list" where
  "read_directory fmt c offset 0 = Inr []"
| "read_directory fmt c offset (Suc n) =
     (case read_descriptor c offset of
        Inl e \<Rightarrow> Inl e
      | Inr d \<Rightarrow>
          if \<not> valid_descriptor fmt c d then Inl BadDirectoryEntry
          else
            (case read_directory fmt c (offset + descriptor_size) n of
               Inl e \<Rightarrow> Inl e
             | Inr ds \<Rightarrow> Inr (d # ds)))"

subsection \<open>Palette resolver (section 4.5)\<close>

text \<open>
  Modelled from the spec: \<^verbatim>\<open>resolve(index)\<close> through a table; \<open>PaletteIndexOutOfRange\<close>
  if the index is outside the table.
\<close>

definition resolve :: "pixel list \<Rightarrow> byte \<Rightarrow> decode_error + pixel" where
  "resolve table i =
     (if unat i < length table then Inr (table ! unat i) else Inl PaletteIndexOutOfRange)"

text \<open>Modelled from the spec: a run of indices resolved one by one, left to right.\<close>

fun resolve_all :: "pixel list \<Rightarrow> byte list \<Rightarrow> decode_error + pixel list" where
  "resolve_all table [] = Inr []"
| "resolve_all table (i # is) =
     (case resolve table i of
        Inl e \<Rightarrow> Inl e
      | Inr p \<Rightarrow>
          (case resolve_all table is of Inl e \<Rightarrow> Inl e | Inr ps \<Rightarrow> Inr (p # ps)))"

subsection \<open>Scanline command interpreter (section 4.4)\<close>

text \<open>
  Modelled from the spec: the pixels a command writes (section 4.4). Raw pixels go
  through the palette, player colours through the remap table, a shadow run is the
  shadow colour, a skip is transparent pixels (0), a fill is one resolved colour.
\<close>

fun pixels_of :: "resolver \<Rightarrow> command \<Rightarrow> decode_error + pixel list" where
  "pixels_of res (RawPixels indices) = resolve_all (palette res) indices"
| "pixels_of res (SkipTransparent n) = Inr (replicate n 0)"
| "pixels_of res (RepeatFill n v) =
     (case resolve (palette res) v of Inl e \<Rightarrow> Inl e | Inr p \<Rightarrow> Inr (replicate n p))"
| "pixels_of res (PlayerColorRun indices) = resolve_all (player_remap res) indices"
| "pixels_of res (ShadowRun n) = Inr (replicate n (shadow res))"
| "pixels_of res EndOfRow = Inr []"

text \<open>
  Modelled from the spec: the state machine of section 4.4 on one row. \<open>row\<close> holds the
  pixels written so far, so \<^verbatim>\<open>pixels_written\<close> is its length. The commands of the
  stream are read one at a time. A byte outside all families fails with
  \<open>UnknownCommand\<close>. An end of row ends the row when \<^verbatim>\<open>pixels_written\<close> equals the
  width and fails with \<open>RowLengthMismatch\<close> otherwise; what follows it in the stream is
  not part of the row. A command whose count would push \<^verbatim>\<open>pixels_written\<close> past the
  width fails with \<open>RowOverrun\<close>, also when the row is already full. Any other command
  writes its pixels. Where the stream stops, the row is done if \<^verbatim>\<open>pixels_written\<close>
  equals the width, and is a row underrun, \<open>RowLengthMismatch\<close>, if not.
\<close>

fun interpret_row ::
  "resolver \<Rightarrow> nat \<Rightarrow> command option list \<Rightarrow> pixel list \<Rightarrow> decode_error + pixel list" where
  "interpret_row res w [] row = (if length row = w then Inr row else Inl RowLengthMismatch)"
| "interpret_row res w (item # stream) row =
     (case item of
        None \<Rightarrow> Inl UnknownCommand
      | Some EndOfRow \<Rightarrow> if length row = w then Inr row else Inl RowLengthMismatch
      | Some cmd \<Rightarrow>
          if w < length row + count cmd then Inl RowOverrun
          else
            (case pixels_of res cmd of
               Inl e \<Rightarrow> Inl e
             | Inr ps \<Rightarrow> interpret_row res w stream (row @ ps)))"

text \<open>
  Modelled from the spec: the rows of a frame, each interpreted from its own stream,
  independently of the others; the first failure aborts.
\<close>

fun interpret_rows ::
  "resolver \<Rightarrow> nat \<Rightarrow> command option list list \<Rightarrow> decode_error + pixel list list" where
  "interpret_rows res w [] = Inr []"
| "interpret_rows res w (stream # streams) =
     (case interpret_row res w stream [] of
        Inl e \<Rightarrow> Inl e
      | Inr row \<Rightarrow>
          (case interpret_rows res w streams of
             Inl e \<Rightarrow> Inl e
           | Inr rows \<Rightarrow> Inr (row # rows)))"

subsection \<open>Buffer assembler (section 4.6) and the decoder\<close>

text \<open>Modelled from the spec: a row written into the buffer from an offset, left to right.\<close>

fun write_row :: "pixel list \<Rightarrow> nat \<Rightarrow> pixel list \<Rightarrow> pixel list" where
  "write_row buffer offset [] = buffer"
| "write_row buffer offset (p # ps) = write_row (buffer[offset := p]) (Suc offset) ps"

text \<open>Modelled from the spec: the rows written top to bottom, row \<open>y\<close> at \<open>y * w\<close>.\<close>

fun write_rows :: "pixel list \<Rightarrow> nat \<Rightarrow> nat \<Rightarrow> pixel list list \<Rightarrow> pixel list" where
  "write_rows buffer w y [] = buffer"
| "write_rows buffer w y (row # rows) = write_rows (write_row buffer (y * w) row) w (Suc y) rows"

text \<open>
  Modelled from the spec: the buffer assembler (section 4.6): a buffer of
  \<open>width * height\<close> transparent pixels, then the rows written into it.
\<close>

definition assemble :: "nat \<Rightarrow> nat \<Rightarrow> pixel list list \<Rightarrow> pixel list" where
  "assemble w h rows = write_rows (replicate (w * h) 0) w 0 rows"

text \<open>
  Modelled from the spec: the control flow of section 2 for the requested frame \<open>k\<close>
  (0 for the first): header, directory, the rows of the frame, the buffer. Any failure
  aborts and no buffer is returned. The specification does not say what a request for
  a frame the directory does not have gives; the model rejects it as
  \<open>BadDirectoryEntry\<close>.
\<close>

definition decode ::
  "slp_format \<Rightarrow> resolver \<Rightarrow> nat \<Rightarrow> byte list \<Rightarrow> decode_error + (pixel list \<times> nat \<times> nat)" where
  "decode fmt res k c =
     (case parse_header fmt c of
        Inl e \<Rightarrow> Inl e
      | Inr h \<Rightarrow>
          (case read_directory fmt c (directory_offset h) (frame_count h) of
             Inl e \<Rightarrow> Inl e
           | Inr ds \<Rightarrow>
               if length ds \<le> k then Inl BadDirectoryEntry
               else
                 (case frame_rows fmt c (ds ! k) of
                    Inl e \<Rightarrow> Inl e
                  | Inr streams \<Rightarrow>
                      (case interpret_rows res (fd_width (ds ! k)) streams of
                         Inl e \<Rightarrow> Inl e
                       | Inr rows \<Rightarrow>
                           Inr (assemble (fd_width (ds ! k)) (fd_height (ds ! k)) rows,
                                fd_width (ds ! k), fd_height (ds ! k))))))"

text \<open>
  Modelled from the spec: the status code of a decode at the boundary (section 6): 0
  on success, the code of the error otherwise.
\<close>

definition decode_status :: "slp_format \<Rightarrow> resolver \<Rightarrow> nat \<Rightarrow> byte list \<Rightarrow> int" where
  "decode_status fmt res k c =
     (case decode fmt res k c of Inl e \<Rightarrow> status_code e | Inr b \<Rightarrow> 0)"

subsection \<open>A small container to run the model on\<close>

text \<open>
  Modelled from the spec: a \<open>frame_rows\<close> that gives the same streams for every frame;
  it stands for the row offset table where the model is run on a concrete input.
\<close>

definition rows_given ::
  "command option list list \<Rightarrow> byte list \<Rightarrow> frame_descriptor \<Rightarrow>
   decode_error + command option list list" where
  "rows_given streams c d = Inr streams"

text \<open>
  Modelled from the spec: an example format. The magic tag is \<^verbatim>\<open>SLPF\<close>, the one
  version tag \<^verbatim>\<open>2.0N\<close>, there is no comment, and the header has 12 bytes.
\<close>

definition example_format :: "command option list list \<Rightarrow> slp_format" where
  "example_format streams =
     \<lparr>magic = [0x53, 0x4C, 0x50, 0x46], version_length = 4,
      versions = [[0x32, 0x2E, 0x30, 0x4E]], comment_length = 0,
      max_dimension = 4096, frame_rows = rows_given streams\<rparr>"

text \<open>
  Modelled from the spec: the container of the concrete scenarios of section 8, 40
  bytes: the header, one descriptor of a frame of 2 by 2 pixels, and four bytes of
  image data at offset 36. The first byte of the magic tag and the low byte of the
  image data offset are left open, to corrupt the one and move the other.
\<close>

definition example_container :: "byte \<Rightarrow> byte \<Rightarrow> byte list" where
  "example_container m image_off =
     [m, 0x4C, 0x50, 0x46,  0x32, 0x2E, 0x30, 0x4E,  1, 0, 0, 0,
      image_off, 0, 0, 0,  0, 0, 0, 0,  2, 0, 0, 0,  2, 0, 0, 0,  0, 0, 0, 0,  0, 0, 0, 0,
      0, 0, 0, 0]"

text \<open>
  Modelled from the spec: the palette of the scenario, one entry that maps index 0 to
  opaque black.
\<close>

definition example_resolver :: resolver where
  "example_resolver = \<lparr>palette = [4278190080], player_remap = [], shadow = 0\<rparr>"

text \<open>Modelled from the spec: the two rows of the scenario, \<open>RawPixels\<close> of two indices each.\<close>

definition example_rows :: "command option list list" where
  "example_rows = [[Some (RawPixels [0, 0])], [Some (RawPixels [0, 0])]]"

text \<open>
  Modelled from the spec: rows whose second row overruns a width of 2: two raw pixels,
  which fill the row, then a fill of five.
\<close>

definition overrun_rows :: "command option list list" where
  "overrun_rows =
     [[Some (RawPixels [0, 0])], [Some (RawPixels [0, 0]), Some (RepeatFill 5 0)]]"

section \<open>Properties of the harness\<close>

subsection \<open>The conversion of the status to \<^verbatim>\<open>int\<close>\<close>

lemma sint_scast_fits:
  fixes c :: "'a::len word"
  assumes "- (2 ^ (LENGTH('b::len) - 1)) \<le> sint c" and "sint c < 2 ^ (LENGTH('b) - 1)"
  shows "sint (scast c :: 'b word) = sint c"
proof -
  have "sint (scast c :: 'b word) = signed_take_bit (LENGTH('b) - 1) (sint c)"
    by (simp only: scast_eq sint_sbintrunc')
  also have "\<dots> = sint c"
    using assms by (rule signed_take_bit_int_eq_self)
  finally show ?thesis .
qed

lemma sint_return_code:
  fixes code :: "'w::len word"
  assumes "- 2147483648 \<le> sint code" and "sint code < 2147483648"
  shows "sint (scast code :: int_t) = sint code"
  using assms by (intro sint_scast_fits) simp_all

subsection \<open>Failure: the status codes with a message\<close>

text \<open>
  Claim C1. When the decoder returns one of the status codes 1, 2, -1, -2 and -32767,
  \<open>main\<close> calls the decoder, prints the message of that code (1: the path was null;
  2: the path was not UTF-8; -1: invalid SLP; -2: bad length; -32767: unknown decoding
  error) and does nothing else; the value it returns is that status code.
\<close>

theorem main_known_status:
  fixes slp_new_from_file ::
    "string \<Rightarrow> ptr \<Rightarrow> 'w::len word \<Rightarrow> 'w word \<Rightarrow> 'w word slp_new_from_file_result"
  assumes "length argv = 2"
    and "returned (slp_new_from_file (argv ! 1) NULL 0 0) = code"
  shows "(sint code = 1 \<longrightarrow>
            fst (main argv slp_new_from_file) =
              [Call_slp_new_from_file (argv ! 1), Printf '''file_path' was null!'' []])
       \<and> (sint code = 2 \<longrightarrow>
            fst (main argv slp_new_from_file) =
              [Call_slp_new_from_file (argv ! 1),
               Printf '''file_path' contained non-utf8 characters!'' []])
       \<and> (sint code = - 1 \<longrightarrow>
            fst (main argv slp_new_from_file) =
              [Call_slp_new_from_file (argv ! 1), Printf ''Invalid SLP!'' []])
       \<and> (sint code = - 2 \<longrightarrow>
            fst (main argv slp_new_from_file) =
              [Call_slp_new_from_file (argv ! 1), Printf ''SLP had a bad length'' []])
       \<and> (sint code = - 32767 \<longrightarrow>
            fst (main argv slp_new_from_file) =
              [Call_slp_new_from_file (argv ! 1),
               Printf ''An unknown error occurred while decoding the SLP'' []])
       \<and> (sint code \<in> {1, 2, - 1, - 2, - 32767} \<longrightarrow>
            sint (snd (main argv slp_new_from_file)) = sint code)"
proof (intro conjI impI)
  assume c: "sint code = 1"
  then have "code \<noteq> 0" by auto
  with assms c show "fst (main argv slp_new_from_file) =
      [Call_slp_new_from_file (argv ! 1), Printf '''file_path' was null!'' []]"
    by (simp add: main_def)
next
  assume c: "sint code = 2"
  then have "code \<noteq> 0" by auto
  with assms c show "fst (main argv slp_new_from_file) =
      [Call_slp_new_from_file (argv ! 1),
       Printf '''file_path' contained non-utf8 characters!'' []]"
    by (simp add: main_def)
next
  assume c: "sint code = - 1"
  then have "code \<noteq> 0" by auto
  with assms c show "fst (main argv slp_new_from_file) =
      [Call_slp_new_from_file (argv ! 1), Printf ''Invalid SLP!'' []]"
    by (simp add: main_def)
next
  assume c: "sint code = - 2"
  then have "code \<noteq> 0" by auto
  with assms c show "fst (main argv slp_new_from_file) =
      [Call_slp_new_from_file (argv ! 1), Printf ''SLP had a bad length'' []]"
    by (simp add: main_def)
next
  assume c: "sint code = - 32767"
  then have "code \<noteq> 0" by auto
  with assms c show "fst (main argv slp_new_from_file) =
      [Call_slp_new_from_file (argv ! 1),
       Printf ''An unknown error occurred while decoding the SLP'' []]"
    by (simp add: main_def)
next
  assume c: "sint code \<in> {1, 2, - 1, - 2, - 32767}"
  then have "code \<noteq> 0" by auto
  with assms have "snd (main argv slp_new_from_file) = scast code"
    by (simp add: main_def Let_def)
  moreover from c have "sint (scast code :: int_t) = sint code"
    by (intro sint_return_code) auto
  ultimately show "sint (snd (main argv slp_new_from_file)) = sint code"
    by simp
qed

theorem main_known_status_witness:
  "fst (main [''cslp'', ''a.slp'']
          (decoder_returning
             \<lparr>returned = - 32767 :: 64 word, image_data_buff = NULL, width = 0, height = 0\<rparr>)) =
     [Call_slp_new_from_file ''a.slp'',
      Printf ''An unknown error occurred while decoding the SLP'' []]
   \<and> sint (snd (main [''cslp'', ''a.slp'']
          (decoder_returning
             \<lparr>returned = - 32767 :: 64 word, image_data_buff = NULL, width = 0, height = 0\<rparr>))) =
       - 32767"
proof -
  let ?r = "\<lparr>returned = - 32767 :: 64 word, image_data_buff = NULL, width = 0, height = 0\<rparr>"
  let ?argv = "[''cslp'', ''a.slp'']"
  have h1: "length ?argv = 2"
    by simp
  have h2: "returned (decoder_returning ?r (?argv ! 1) NULL 0 0) = - 32767"
    by (simp add: decoder_returning_def)
  have s: "sint (- 32767 :: 64 word) = - 32767"
    by simp
  have p: "[''cslp'', ''a.slp''] ! 1 = ''a.slp''"
    by simp
  show ?thesis
    using main_known_status [where argv = ?argv and slp_new_from_file = "decoder_returning ?r"
        and code = "- 32767", OF h1 h2]
    unfolding s p by simp
qed

subsection \<open>Failure: every other status code\<close>

text \<open>
  Claim C9, as the specification states it: a nonzero status code outside 1, 2, -1, -2,
  -32767 is returned unchanged. Where \<^verbatim>\<open>ssize_t\<close> has 64 bits the decoder can return
  \<open>2 ^ 32\<close>, which is none of the five codes; \<^verbatim>\<open>return code\<close> converts it to
  \<^verbatim>\<open>int\<close>, and \<open>main\<close> returns 0.
\<close>

theorem main_other_status_counterexample:
  "(4294967296 :: 64 word) \<noteq> 0
   \<and> sint (4294967296 :: 64 word) \<notin> {1, 2, - 1, - 2, - 32767}
   \<and> snd (main [''cslp'', ''a.slp'']
          (decoder_returning
             \<lparr>returned = 4294967296 :: 64 word, image_data_buff = NULL, width = 0, height = 0\<rparr>)) = 0
   \<and> sint (snd (main [''cslp'', ''a.slp'']
          (decoder_returning
             \<lparr>returned = 4294967296 :: 64 word, image_data_buff = NULL, width = 0, height = 0\<rparr>)))
       \<noteq> sint (4294967296 :: 64 word)"
  by (simp add: main_def decoder_returning_def)

text \<open>
  Claim C9, amended. When the decoder returns a nonzero status code outside 1, 2, -1,
  -2, -32767, \<open>main\<close> calls the decoder and does nothing else: it prints no message and
  does not call \<^verbatim>\<open>slp_free\<close>. It returns the status code converted to \<^verbatim>\<open>int\<close>, which is
  the status code itself whenever that is an \<^verbatim>\<open>int\<close> (from \<open>- 2 ^ 31\<close> to \<open>2 ^ 31 - 1\<close>).
\<close>

theorem main_other_status:
  fixes slp_new_from_file ::
    "string \<Rightarrow> ptr \<Rightarrow> 'w::len word \<Rightarrow> 'w word \<Rightarrow> 'w word slp_new_from_file_result"
  assumes "length argv = 2"
    and "returned (slp_new_from_file (argv ! 1) NULL 0 0) = code"
    and "code \<noteq> 0"
    and "sint code \<notin> {1, 2, - 1, - 2, - 32767}"
  shows "main argv slp_new_from_file = ([Call_slp_new_from_file (argv ! 1)], scast code)
         \<and> printed (fst (main argv slp_new_from_file)) = []
         \<and> slp_free_calls (fst (main argv slp_new_from_file)) = []
         \<and> (- 2147483648 \<le> sint code \<and> sint code < 2147483648 \<longrightarrow>
              sint (snd (main argv slp_new_from_file)) = sint code)"
proof -
  have run: "main argv slp_new_from_file = ([Call_slp_new_from_file (argv ! 1)], scast code)"
    using assms by (simp add: main_def Let_def)
  have "sint (scast code :: int_t) = sint code"
    if "- 2147483648 \<le> sint code" and "sint code < 2147483648"
    using that by (rule sint_return_code)
  with run show ?thesis
    by simp
qed

theorem main_other_status_witness:
  "main [''cslp'', ''a.slp'']
     (decoder_returning
        \<lparr>returned = - 3 :: 64 word, image_data_buff = NULL, width = 0, height = 0\<rparr>) =
     ([Call_slp_new_from_file ''a.slp''], - 3)
   \<and> sint (snd (main [''cslp'', ''a.slp'']
          (decoder_returning
             \<lparr>returned = - 3 :: 64 word, image_data_buff = NULL, width = 0, height = 0\<rparr>))) = - 3"
proof -
  let ?r = "\<lparr>returned = - 3 :: 64 word, image_data_buff = NULL, width = 0, height = 0\<rparr>"
  let ?argv = "[''cslp'', ''a.slp'']"
  have h1: "length ?argv = 2"
    by simp
  have h2: "returned (decoder_returning ?r (?argv ! 1) NULL 0 0) = - 3"
    by (simp add: decoder_returning_def)
  have h3: "(- 3 :: 64 word) \<noteq> 0"
    by simp
  have h4: "sint (- 3 :: 64 word) \<notin> {1, 2, - 1, - 2, - 32767}"
    by simp
  have fits: "- 2147483648 \<le> sint (- 3 :: 64 word) \<and> sint (- 3 :: 64 word) < 2147483648"
    by simp
  have minus3: "sint (- 3 :: 64 word) = - 3"
    by simp
  from main_other_status [where argv = ?argv and slp_new_from_file = "decoder_returning ?r"
        and code = "- 3", OF h1 h2 h3 h4] fits
  have "main ?argv (decoder_returning ?r) = ([Call_slp_new_from_file (?argv ! 1)], scast (- 3 :: 64 word))"
    and "sint (snd (main ?argv (decoder_returning ?r))) = sint (- 3 :: 64 word)"
    by blast+
  then show ?thesis
    unfolding minus3 by simp
qed

subsection \<open>Success\<close>

text \<open>
  Claim C2. When the decoder returns status 0, \<open>main\<close> calls \<^verbatim>\<open>slp_free\<close> exactly once,
  on the buffer the decoder returned and with the product of the width and the height
  it returned as the length (the product of two \<^verbatim>\<open>size_t\<close>, as the program forms it),
  and \<open>main\<close> returns 0.
\<close>

theorem main_success_releases_once:
  assumes "length argv = 2"
    and "slp_new_from_file (argv ! 1) NULL 0 0 = r"
    and "returned r = 0"
  shows "slp_free_calls (fst (main argv slp_new_from_file)) =
           [(image_data_buff r, width r * height r)]
         \<and> snd (main argv slp_new_from_file) = 0"
  using assms by (simp add: main_def Let_def)

theorem main_success_releases_once_witness:
  "slp_free_calls (fst (main [''cslp'', ''a.slp'']
      (decoder_returning
         \<lparr>returned = 0 :: 64 word, image_data_buff = 4096, width = 3, height = 5\<rparr>))) =
     [(4096, 15)]
   \<and> snd (main [''cslp'', ''a.slp'']
      (decoder_returning
         \<lparr>returned = 0 :: 64 word, image_data_buff = 4096, width = 3, height = 5\<rparr>)) = 0"
proof -
  let ?r = "\<lparr>returned = 0 :: 64 word, image_data_buff = 4096, width = 3, height = 5\<rparr>"
  let ?argv = "[''cslp'', ''a.slp'']"
  have h1: "length ?argv = 2"
    by simp
  have h2: "decoder_returning ?r (?argv ! 1) NULL 0 0 = ?r"
    by (simp add: decoder_returning_def)
  have h3: "returned ?r = 0"
    by simp
  show ?thesis
    using main_success_releases_once [where argv = ?argv
        and slp_new_from_file = "decoder_returning ?r" and r = ?r, OF h1 h2 h3]
    by simp
qed

text \<open>
  Claim C10. On success the length printed and the length passed to \<^verbatim>\<open>slp_free\<close> are
  one value: the \<^verbatim>\<open>size_t\<close> product of the width and the height, which is their product
  modulo \<open>2 ^ w\<close> for a \<^verbatim>\<open>size_t\<close> of \<open>w\<close> bits.
\<close>

theorem main_image_data_len_wraps:
  fixes slp_new_from_file ::
    "string \<Rightarrow> ptr \<Rightarrow> 'w::len word \<Rightarrow> 'w word \<Rightarrow> 'w word slp_new_from_file_result"
  assumes "length argv = 2"
    and "slp_new_from_file (argv ! 1) NULL 0 0 = r"
    and "returned r = 0"
  shows "\<exists>len. printed (fst (main argv slp_new_from_file)) =
                 [(''image_data_len: %zu\<newline>'', [len])]
             \<and> slp_free_calls (fst (main argv slp_new_from_file)) = [(image_data_buff r, len)]
             \<and> unat len = unat (width r) * unat (height r) mod 2 ^ LENGTH('w)"
proof (intro exI conjI)
  show "printed (fst (main argv slp_new_from_file)) =
          [(''image_data_len: %zu\<newline>'', [width r * height r])]"
    using assms by (simp add: main_def Let_def)
  show "slp_free_calls (fst (main argv slp_new_from_file)) =
          [(image_data_buff r, width r * height r)]"
    using assms by (simp add: main_def Let_def)
  show "unat (width r * height r) = unat (width r) * unat (height r) mod 2 ^ LENGTH('w)"
    by (rule unat_word_ariths)
qed

theorem main_image_data_len_wraps_witness:
  "printed (fst (main [''cslp'', ''a.slp'']
      (decoder_returning
         \<lparr>returned = 0 :: 64 word, image_data_buff = 4096,
          width = 4294967296, height = 4294967297\<rparr>))) =
     [(''image_data_len: %zu\<newline>'', [4294967296])]
   \<and> slp_free_calls (fst (main [''cslp'', ''a.slp'']
      (decoder_returning
         \<lparr>returned = 0 :: 64 word, image_data_buff = 4096,
          width = 4294967296, height = 4294967297\<rparr>))) =
     [(4096, 4294967296)]
   \<and> (4294967296 * 4294967297) mod 2 ^ 64 = (4294967296 :: nat)"
proof -
  let ?r = "\<lparr>returned = 0 :: 64 word, image_data_buff = 4096,
          width = 4294967296, height = 4294967297\<rparr>"
  let ?argv = "[''cslp'', ''a.slp'']"
  have h1: "length ?argv = 2"
    by simp
  have h2: "decoder_returning ?r (?argv ! 1) NULL 0 0 = ?r"
    by (simp add: decoder_returning_def)
  have h3: "returned ?r = 0"
    by simp
  from main_image_data_len_wraps [where argv = ?argv
        and slp_new_from_file = "decoder_returning ?r" and r = ?r, OF h1 h2 h3]
  obtain len :: "64 word"
    where p: "printed (fst (main ?argv (decoder_returning ?r))) =
                [(''image_data_len: %zu\<newline>'', [len])]"
      and f: "slp_free_calls (fst (main ?argv (decoder_returning ?r))) =
                [(image_data_buff ?r, len)]"
      and u: "unat len = unat (width ?r) * unat (height ?r) mod 2 ^ LENGTH(64)"
    by (elim exE conjE)
  have m: "(4294967296 * 4294967297) mod 2 ^ 64 = (4294967296 :: nat)"
    by simp
  from u have "unat len = 4294967296"
    by simp
  then have "word_of_nat (unat len) = (word_of_nat 4294967296 :: 64 word)"
    by (rule arg_cong)
  then have "len = 4294967296"
    by simp
  with p f m show ?thesis
    by simp
qed

subsection \<open>No release after a failure\<close>

text \<open>
  Claim C3. When the decoder returns a nonzero status, \<open>main\<close> returns without calling
  \<^verbatim>\<open>slp_free\<close>.
\<close>

theorem main_failure_never_releases:
  assumes "length argv = 2"
    and "returned (slp_new_from_file (argv ! 1) NULL 0 0) \<noteq> 0"
  shows "slp_free_calls (fst (main argv slp_new_from_file)) = []"
  using assms by (simp add: main_def Let_def)

theorem main_failure_never_releases_witness:
  "slp_free_calls (fst (main [''cslp'', ''a.slp'']
      (decoder_returning
         \<lparr>returned = - 2 :: 64 word, image_data_buff = 4096, width = 3, height = 5\<rparr>))) = []"
proof -
  let ?r = "\<lparr>returned = - 2 :: 64 word, image_data_buff = 4096, width = 3, height = 5\<rparr>"
  let ?argv = "[''cslp'', ''a.slp'']"
  have h1: "length ?argv = 2"
    by simp
  have h2: "returned (decoder_returning ?r (?argv ! 1) NULL 0 0) \<noteq> 0"
    by (simp add: decoder_returning_def)
  show ?thesis
    using main_failure_never_releases [where argv = ?argv
        and slp_new_from_file = "decoder_returning ?r", OF h1 h2]
    by simp
qed

subsection \<open>No path argument\<close>

text \<open>
  Claim C4. When the path argument is absent (\<open>argv\<close> has no entry 1), \<open>main\<close> returns 1,
  the value of \<open>ERR_NO_ARG\<close>, and does not call the decoder.
\<close>

theorem main_absent_path:
  assumes "length argv < 2"
  shows "snd (main argv slp_new_from_file) = 1
         \<and> ERR_NO_ARG = 1
         \<and> slp_new_from_file_calls (fst (main argv slp_new_from_file)) = []"
  using assms by (simp add: main_def ERR_NO_ARG_def)

theorem main_absent_path_witness:
  "snd (main [''cslp'']
      (decoder_returning
         \<lparr>returned = 0 :: 64 word, image_data_buff = 4096, width = 3, height = 5\<rparr>)) = 1
   \<and> slp_new_from_file_calls (fst (main [''cslp'']
      (decoder_returning
         \<lparr>returned = 0 :: 64 word, image_data_buff = 4096, width = 3, height = 5\<rparr>))) = []"
proof -
  have h: "length [''cslp''] < 2"
    by simp
  show ?thesis
    using main_absent_path [where argv = "[''cslp'']" and slp_new_from_file = "decoder_returning
         \<lparr>returned = 0 :: 64 word, image_data_buff = 4096, width = 3, height = 5\<rparr>", OF h]
    by simp
qed

section \<open>Properties of the decoder model\<close>

subsection \<open>The model on the example container\<close>

lemma example_length: "length (example_container m image_off) = 40"
  by (simp add: example_container_def)

lemma example_header:
  "parse_header (example_format streams) (example_container 0x53 image_off) =
     Inr \<lparr>version = [0x32, 0x2E, 0x30, 0x4E], frame_count = 1, comment = [],
          directory_offset = 12\<rparr>"
  by (simp add: parse_header_def example_format_def example_container_def header_size_def
      slice_def read_u32_le_def)

lemma example_descriptor:
  "read_descriptor (example_container m image_off) 12 =
     Inr \<lparr>image_data_offset = unat image_off, outline_data_offset = 0, fd_width = 2,
          fd_height = 2, anchor_x = 0, anchor_y = 0\<rparr>"
  by (simp add: read_descriptor_def example_container_def read_u32_le_def)

lemma example_directory:
  "read_directory (example_format streams) (example_container m 36) 12 (Suc 0) =
     Inr [\<lparr>image_data_offset = 36, outline_data_offset = 0, fd_width = 2,
           fd_height = 2, anchor_x = 0, anchor_y = 0\<rparr>]"
  by (simp add: example_descriptor valid_descriptor_def example_length example_format_def)

lemma example_row:
  "interpret_row example_resolver 2 [Some (RawPixels [0, 0])] [] =
     Inr [4278190080, 4278190080]"
  by (simp add: example_resolver_def resolve_def)

text \<open>
  The first scenario of section 8: the container decodes to a buffer of four opaque
  black pixels, 2 by 2, with status 0.
\<close>

lemma example_decodes:
  "decode (example_format example_rows) example_resolver 0 (example_container 0x53 36) =
     Inr ([4278190080, 4278190080, 4278190080, 4278190080], 2, 2)"
proof -
  have rows: "frame_rows (example_format example_rows) c d = Inr example_rows" for c d
    by (simp add: example_format_def rows_given_def)
  have "interpret_rows example_resolver 2 example_rows =
          Inr [[4278190080, 4278190080], [4278190080, 4278190080]]"
    by (simp add: example_rows_def example_row del: interpret_row.simps)
  moreover have "assemble 2 2 [[p, q], [r, s]] = [p, q, r, s]" for p q r s
    by (simp add: assemble_def eval_nat_numeral)
  ultimately show ?thesis
    by (simp add: decode_def example_header example_directory rows
        del: read_directory.simps)
qed

lemma example_status:
  "decode_status (example_format example_rows) example_resolver 0
     (example_container 0x53 36) = 0"
  by (simp add: decode_status_def example_decodes)

subsection \<open>A corrupted magic tag\<close>

lemma parse_header_bad_magic:
  assumes "header_size fmt \<le> length c"
    and "j < length (magic fmt)"
    and "c ! j \<noteq> magic fmt ! j"
  shows "parse_header fmt c = Inl InvalidFormat"
proof -
  have len: "length (magic fmt) \<le> length c"
    using assms(1) by (simp add: header_size_def)
  have "take (length (magic fmt)) c ! j = c ! j"
    using assms(2) by simp
  with assms(3) have "take (length (magic fmt)) c \<noteq> magic fmt"
    by auto
  with assms(1) len show ?thesis
    by (simp add: parse_header_def slice_def)
qed

lemma parse_header_magic:
  assumes "parse_header fmt c = Inr h"
  shows "header_size fmt \<le> length c" and "take (length (magic fmt)) c = magic fmt"
proof -
  show whole: "header_size fmt \<le> length c"
    using assms by (simp add: parse_header_def split: if_splits)
  then have "length (magic fmt) \<le> length c"
    by (simp add: header_size_def)
  with assms whole show "take (length (magic fmt)) c = magic fmt"
    by (simp add: parse_header_def slice_def split: if_splits)
qed

text \<open>
  Claim C6 (on the model of section 4.2). Take a container whose header is accepted and
  change its bytes, at least one byte of the magic tag among them, keeping its length:
  the decode of the result fails with \<open>InvalidFormat\<close>, so it returns no buffer, and its
  status is -1.
\<close>

theorem decode_corrupted_magic:
  assumes "parse_header fmt c0 = Inr h"
    and "length c = length c0"
    and "j < length (magic fmt)"
    and "c ! j \<noteq> c0 ! j"
  shows "decode fmt res k c = Inl InvalidFormat \<and> decode_status fmt res k c = - 1"
proof -
  have "take (length (magic fmt)) c0 ! j = magic fmt ! j"
    using parse_header_magic(2) [OF assms(1)] by simp
  then have "c0 ! j = magic fmt ! j"
    using assms(3) by simp
  with assms(4) have "c ! j \<noteq> magic fmt ! j"
    by simp
  moreover have "header_size fmt \<le> length c"
    using parse_header_magic(1) [OF assms(1)] assms(2) by simp
  ultimately have "parse_header fmt c = Inl InvalidFormat"
    using assms(3) by (intro parse_header_bad_magic)
  then show ?thesis
    by (simp add: decode_def decode_status_def)
qed

theorem decode_corrupted_magic_witness:
  "decode (example_format example_rows) example_resolver 0 (example_container 0x58 36) =
     Inl InvalidFormat
   \<and> decode_status (example_format example_rows) example_resolver 0
       (example_container 0x58 36) = - 1"
proof -
  have h1: "parse_header (example_format example_rows) (example_container 0x53 36) =
      Inr \<lparr>version = [0x32, 0x2E, 0x30, 0x4E], frame_count = 1, comment = [],
          directory_offset = 12\<rparr>"
    by (rule example_header)
  have h2: "length (example_container 0x58 36) = length (example_container 0x53 36)"
    by (simp add: example_length)
  have h3: "0 < length (magic (example_format example_rows))"
    by (simp add: example_format_def)
  have h4: "example_container 0x58 36 ! 0 \<noteq> example_container 0x53 36 ! 0"
    by (simp add: example_container_def)
  show ?thesis
    by (rule decode_corrupted_magic [OF h1 h2 h3 h4])
qed

subsection \<open>A directory entry that points outside the container\<close>

lemma read_descriptor_readable:
  "offset + descriptor_size \<le> length c \<Longrightarrow> \<exists>d. read_descriptor c offset = Inr d"
  by (simp add: read_descriptor_def read_u32_le_def descriptor_size_def)

lemma read_descriptor_bound:
  "read_descriptor c offset = Inr d \<Longrightarrow> offset + descriptor_size \<le> length c"
  by (simp add: read_descriptor_def read_u32_le_def descriptor_size_def
      split: if_splits)

text \<open>
  An entry that is read and fails the validation makes the directory fail, wherever it
  stands: the entries before it can be read, since they lie before it, and each of them
  either passes or fails the validation itself.
\<close>

lemma read_directory_bad_entry:
  assumes "i < n"
    and "read_descriptor c (offset + i * descriptor_size) = Inr d"
    and "\<not> valid_descriptor fmt c d"
  shows "read_directory fmt c offset n = Inl BadDirectoryEntry"
  using assms
proof (induction n arbitrary: offset i)
  case 0
  then show ?case by simp
next
  case (Suc n)
  show ?case
  proof (cases i)
    case 0
    with Suc.prems show ?thesis by simp
  next
    case (Suc i')
    from Suc.prems(2) have "offset + i * descriptor_size + descriptor_size \<le> length c"
      by (rule read_descriptor_bound)
    then have "offset + descriptor_size \<le> length c"
      by simp
    then obtain d0 where d0: "read_descriptor c offset = Inr d0"
      using read_descriptor_readable by blast
    have "read_directory fmt c (offset + descriptor_size) n = Inl BadDirectoryEntry"
    proof (rule Suc.IH [of i'])
      show "i' < n"
        using Suc.prems(1) Suc by simp
      show "read_descriptor c (offset + descriptor_size + i' * descriptor_size) = Inr d"
        using Suc.prems(2) Suc by (simp add: add.assoc)
      show "\<not> valid_descriptor fmt c d"
        by (rule Suc.prems(3))
    qed
    with d0 show ?thesis
      by simp
  qed
qed

text \<open>
  Claim C7 (on the model of section 4.3). When the header is accepted and entry \<open>i\<close> of
  the frame directory, any of its entries, has an image data offset greater than or
  equal to the length of the container, the decode fails with \<open>BadDirectoryEntry\<close>, so
  it returns no buffer, and its status is -2.
\<close>

theorem decode_offset_past_end:
  assumes "parse_header fmt c = Inr h"
    and "i < frame_count h"
    and "read_descriptor c (directory_offset h + i * descriptor_size) = Inr d"
    and "length c \<le> image_data_offset d"
  shows "decode fmt res k c = Inl BadDirectoryEntry \<and> decode_status fmt res k c = - 2"
proof -
  from assms(4) have "\<not> valid_descriptor fmt c d"
    by (simp add: valid_descriptor_def)
  with assms(2,3)
  have "read_directory fmt c (directory_offset h) (frame_count h) = Inl BadDirectoryEntry"
    by (rule read_directory_bad_entry)
  with assms(1) show ?thesis
    by (simp add: decode_def decode_status_def)
qed

theorem decode_offset_past_end_witness:
  "length (example_container 0x53 40) = 40
   \<and> decode (example_format example_rows) example_resolver 0 (example_container 0x53 40) =
       Inl BadDirectoryEntry
   \<and> decode_status (example_format example_rows) example_resolver 0
       (example_container 0x53 40) = - 2"
proof -
  let ?h = "\<lparr>version = [0x32, 0x2E, 0x30, 0x4E], frame_count = 1, comment = [],
          directory_offset = 12\<rparr>"
  let ?d = "\<lparr>image_data_offset = 40, outline_data_offset = 0, fd_width = 2,
          fd_height = 2, anchor_x = 0, anchor_y = 0\<rparr>"
  have h1: "parse_header (example_format example_rows) (example_container 0x53 40) = Inr ?h"
    by (rule example_header)
  have h2: "0 < frame_count ?h"
    by simp
  have h3: "read_descriptor (example_container 0x53 40)
              (directory_offset ?h + 0 * descriptor_size) = Inr ?d"
    by (simp add: example_descriptor)
  have h4: "length (example_container 0x53 40) \<le> image_data_offset ?d"
    by (simp add: example_length)
  show ?thesis
    using decode_offset_past_end [OF h1 h2 h3 h4] by (simp add: example_length)
qed

subsection \<open>A row that overruns the width\<close>

lemma resolve_all_length: "resolve_all table is = Inr ps \<Longrightarrow> length ps = length is"
  by (induction "is" arbitrary: ps) (auto split: sum.splits)

lemma resolve_error: "resolve table i = Inl e \<Longrightarrow> e = PaletteIndexOutOfRange"
  by (auto simp add: resolve_def split: if_splits)

lemma resolve_all_error: "resolve_all table is = Inl e \<Longrightarrow> e = PaletteIndexOutOfRange"
  by (induction "is") (auto split: sum.splits dest: resolve_error)

text \<open>A command writes as many pixels as it declares.\<close>

lemma pixels_of_length: "pixels_of res cmd = Inr ps \<Longrightarrow> length ps = count cmd"
  by (cases cmd) (auto split: sum.splits dest: resolve_all_length)

lemma pixels_of_error: "pixels_of res cmd = Inl e \<Longrightarrow> e = PaletteIndexOutOfRange"
  by (cases cmd) (auto split: sum.splits dest: resolve_all_error resolve_error)

text \<open>One transition of the state machine, in any state of the row.\<close>

lemma interpret_row_step:
  "interpret_row res w (Some cmd # stream) row =
     (if cmd = EndOfRow then (if length row = w then Inr row else Inl RowLengthMismatch)
      else if w < length row + count cmd then Inl RowOverrun
      else (case pixels_of res cmd of
              Inl e \<Rightarrow> Inl e
            | Inr ps \<Rightarrow> interpret_row res w stream (row @ ps)))"
  by (cases cmd) simp_all

text \<open>Every failure of the interpreter is an interpretation error: its status is -32767.\<close>

lemma interpret_row_error:
  "interpret_row res w stream row = Inl e \<Longrightarrow> status_code e = - 32767"
proof (induction stream arbitrary: row)
  case Nil
  then show ?case
    by (auto split: if_splits)
next
  case (Cons item stream)
  show ?case
  proof (cases item)
    case None
    with Cons.prems show ?thesis
      by simp
  next
    case (Some cmd)
    with Cons show ?thesis
      by (auto simp add: interpret_row_step simp del: interpret_row.simps
          split: if_splits sum.splits dest: pixels_of_error)
  qed
qed

lemma interpret_rows_error:
  "interpret_rows res w streams = Inl e \<Longrightarrow> status_code e = - 32767"
  by (induction streams arbitrary: e) (auto split: sum.splits dest: interpret_row_error)

text \<open>
  A row in which a command \<open>cmd\<close> is read after the commands \<open>pre\<close>, whose counts
  together with its own exceed the width, never completes, whatever the row held
  before: some command of \<open>pre\<close> fails, or overruns the width itself, or \<open>cmd\<close> is
  refused.
\<close>

lemma interpret_row_overrun_fails:
  assumes "EndOfRow \<notin> set pre"
    and "w < length row + sum_list (map count pre) + count cmd"
  shows "\<exists>e. interpret_row res w (map Some pre @ Some cmd # rest) row = Inl e"
  using assms
proof (induction pre arbitrary: row)
  case Nil
  then show ?case
    by (auto simp add: interpret_row_step simp del: interpret_row.simps)
next
  case (Cons p pre)
  then have p: "p \<noteq> EndOfRow" and pre: "EndOfRow \<notin> set pre"
    by auto
  show ?case
  proof (cases "pixels_of res p")
    case (Inl e)
    with p show ?thesis
      by (simp add: interpret_row_step del: interpret_row.simps)
  next
    case (Inr ps)
    then have len: "length ps = count p"
      by (rule pixels_of_length)
    have "\<exists>e. interpret_row res w (map Some pre @ Some cmd # rest) (row @ ps) = Inl e"
      using Cons.prems(2) len pre by (intro Cons.IH) simp_all
    with p Inr show ?thesis
      by (auto simp add: interpret_row_step simp del: interpret_row.simps)
  qed
qed

text \<open>
  When the commands of \<open>pre\<close> resolve their colours, the failure is \<open>RowOverrun\<close>: it
  comes from the first command that would push the row past the width, in \<open>pre\<close> or
  \<open>cmd\<close> itself.
\<close>

lemma interpret_row_overrun_first:
  assumes "EndOfRow \<notin> set pre"
    and "w < length row + sum_list (map count pre) + count cmd"
    and "length row \<le> w"
    and "\<forall>p\<in>set pre. \<exists>ps. pixels_of res p = Inr ps"
  shows "interpret_row res w (map Some pre @ Some cmd # rest) row = Inl RowOverrun"
  using assms
proof (induction pre arbitrary: row)
  case Nil
  then have "cmd \<noteq> EndOfRow"
    by auto
  with Nil show ?case
    by (simp add: interpret_row_step del: interpret_row.simps)
next
  case (Cons p pre)
  then have p: "p \<noteq> EndOfRow" and pre: "EndOfRow \<notin> set pre"
    by auto
  from Cons.prems(4) obtain ps where ps: "pixels_of res p = Inr ps"
    by auto
  then have len: "length ps = count p"
    by (rule pixels_of_length)
  show ?case
  proof (cases "w < length row + count p")
    case True
    with p show ?thesis
      by (simp add: interpret_row_step del: interpret_row.simps)
  next
    case False
    have "interpret_row res w (map Some pre @ Some cmd # rest) (row @ ps) = Inl RowOverrun"
      using Cons.prems(2,4) len pre False by (intro Cons.IH) simp_all
    with p ps False show ?thesis
      by (simp add: interpret_row_step del: interpret_row.simps)
  qed
qed

text \<open>A row that fails makes the frame fail; the first row that fails gives the error.\<close>

lemma interpret_rows_fails:
  assumes "y < length streams"
    and "interpret_row res w (streams ! y) [] = Inl e"
  shows "\<exists>e'. interpret_rows res w streams = Inl e'"
  using assms
proof (induction streams arbitrary: y)
  case Nil
  then show ?case by simp
next
  case (Cons s streams)
  show ?case
  proof (cases y)
    case 0
    with Cons.prems show ?thesis by simp
  next
    case (Suc y')
    with Cons.prems have "\<exists>e'. interpret_rows res w streams = Inl e'"
      by (intro Cons.IH [of y']) simp_all
    then show ?thesis
      by (auto split: sum.splits)
  qed
qed

lemma interpret_rows_first_failure:
  assumes "y < length streams"
    and "interpret_row res w (streams ! y) [] = Inl e"
    and "\<forall>j<y. \<exists>row. interpret_row res w (streams ! j) [] = Inr row"
  shows "interpret_rows res w streams = Inl e"
  using assms
proof (induction streams arbitrary: y)
  case Nil
  then show ?case by simp
next
  case (Cons s streams)
  show ?case
  proof (cases y)
    case 0
    with Cons.prems show ?thesis by simp
  next
    case (Suc y')
    from Cons.prems(3) Suc obtain row where row: "interpret_row res w s [] = Inr row"
      by fastforce
    have "\<forall>j<y'. \<exists>row. interpret_row res w (streams ! j) [] = Inr row"
      using Cons.prems(3) Suc by fastforce
    with Cons.prems Suc have "interpret_rows res w streams = Inl e"
      by (intro Cons.IH [of y']) simp_all
    with row show ?thesis
      by simp
  qed
qed

text \<open>A row that is interpreted has exactly the width: none comes out shorter or longer.\<close>

lemma interpret_row_exact:
  "interpret_row res w stream row = Inr row' \<Longrightarrow> length row' = w"
proof (induction stream arbitrary: row)
  case Nil
  then show ?case
    by (auto split: if_splits)
next
  case (Cons item stream)
  show ?case
  proof (cases item)
    case None
    with Cons.prems show ?thesis
      by simp
  next
    case (Some cmd)
    with Cons show ?thesis
      by (auto simp add: interpret_row_step simp del: interpret_row.simps
          split: if_splits sum.splits)
  qed
qed

text \<open>
  A command is refused also when the row is already full, and in a row of width 0; an
  end of row is accepted exactly when the row is full.
\<close>

lemma interpret_row_full_then_overrun:
  "interpret_row example_resolver 2 [Some (RawPixels [0, 0]), Some (RepeatFill 5 0)] [] =
     Inl RowOverrun"
  by (simp add: example_resolver_def resolve_def)

lemma interpret_row_width_0:
  "interpret_row res 0 (Some (RawPixels [0, 0, 0]) # rest) [] = Inl RowOverrun"
  "interpret_row res 0 (None # rest) [] = Inl UnknownCommand"
  "interpret_row res 0 (Some EndOfRow # rest) [] = Inr []"
  by simp_all

lemma interpret_row_end_of_row:
  "interpret_row example_resolver 2 [Some (RawPixels [0, 0]), Some EndOfRow] [] =
     Inr [4278190080, 4278190080]"
  "interpret_row example_resolver 2 [Some (RawPixels [0]), Some EndOfRow] [] =
     Inl RowLengthMismatch"
  by (simp_all add: example_resolver_def resolve_def)

text \<open>
  Claim C5 (on the model of section 4.4). Let the header and the directory be accepted
  and the rows of frame \<open>k\<close> be read. Let a command \<open>cmd\<close> be read in some row \<open>y\<close>, after
  the commands \<open>pre\<close> of that row (a row ends at its end of row, so none of \<open>pre\<close> is
  one), and let its count push \<^verbatim>\<open>pixels_written\<close>, the counts of \<open>pre\<close> together, past
  the width. Then the decode fails with an interpretation error, status -32767, and
  returns no buffer: the row is not truncated, wrapped or clipped. This holds also when
  \<open>pre\<close> has filled the row exactly, and when the width is 0. The error is
  \<open>RowOverrun\<close> itself when nothing failed before: the rows above are interpreted, and
  the commands of \<open>pre\<close> resolve their colours.
\<close>

theorem decode_row_overrun:
  assumes "parse_header fmt c = Inr h"
    and "read_directory fmt c (directory_offset h) (frame_count h) = Inr ds"
    and "k < length ds"
    and "frame_rows fmt c (ds ! k) = Inr streams"
    and "y < length streams"
    and "streams ! y = map Some pre @ Some cmd # rest"
    and "EndOfRow \<notin> set pre"
    and "fd_width (ds ! k) < sum_list (map count pre) + count cmd"
  shows "(\<exists>e. decode fmt res k c = Inl e \<and> status_code e = - 32767)
         \<and> decode_status fmt res k c = - 32767
         \<and> ((\<forall>j<y. \<exists>row. interpret_row res (fd_width (ds ! k)) (streams ! j) [] = Inr row)
              \<and> (\<forall>p\<in>set pre. \<exists>ps. pixels_of res p = Inr ps)
            \<longrightarrow> decode fmt res k c = Inl RowOverrun)"
proof -
  let ?w = "fd_width (ds ! k)"
  have run: "decode fmt res k c =
      (case interpret_rows res ?w streams of
         Inl e \<Rightarrow> Inl e
       | Inr rows \<Rightarrow> Inr (assemble ?w (fd_height (ds ! k)) rows, ?w, fd_height (ds ! k)))"
    using assms(1-4) by (simp add: decode_def)
  have "\<exists>e. interpret_row res ?w (streams ! y) [] = Inl e"
    unfolding assms(6) using assms(7,8) by (intro interpret_row_overrun_fails) simp_all
  with assms(5) obtain e where e: "interpret_rows res ?w streams = Inl e"
    using interpret_rows_fails by blast
  then have interp: "status_code e = - 32767"
    by (rule interpret_rows_error)
  have first: "decode fmt res k c = Inl RowOverrun"
    if "\<forall>j<y. \<exists>row. interpret_row res ?w (streams ! j) [] = Inr row"
      and "\<forall>p\<in>set pre. \<exists>ps. pixels_of res p = Inr ps"
  proof -
    have "interpret_row res ?w (streams ! y) [] = Inl RowOverrun"
      unfolding assms(6) using assms(7,8) that(2)
      by (intro interpret_row_overrun_first) simp_all
    with assms(5) that(1) have "interpret_rows res ?w streams = Inl RowOverrun"
      by (intro interpret_rows_first_failure [of y]) simp_all
    with run show ?thesis
      by simp
  qed
  from run e interp have "\<exists>e. decode fmt res k c = Inl e \<and> status_code e = - 32767"
    and "decode_status fmt res k c = - 32767"
    by (simp_all add: decode_status_def)
  with first show ?thesis
    by blast
qed

theorem decode_row_overrun_witness:
  "decode (example_format overrun_rows) example_resolver 0 (example_container 0x53 36) =
     Inl RowOverrun
   \<and> decode_status (example_format overrun_rows) example_resolver 0
       (example_container 0x53 36) = - 32767"
proof -
  let ?fmt = "example_format overrun_rows"
  let ?c = "example_container 0x53 36"
  let ?h = "\<lparr>version = [0x32, 0x2E, 0x30, 0x4E], frame_count = 1, comment = [],
          directory_offset = 12\<rparr>"
  let ?ds = "[\<lparr>image_data_offset = 36, outline_data_offset = 0, fd_width = 2,
           fd_height = 2, anchor_x = 0, anchor_y = 0\<rparr>]"
  have h1: "parse_header ?fmt ?c = Inr ?h"
    by (rule example_header)
  have h2: "read_directory ?fmt ?c (directory_offset ?h) (frame_count ?h) = Inr ?ds"
    by (simp add: example_directory del: read_directory.simps)
  have h3: "0 < length ?ds"
    by simp
  have h4: "frame_rows ?fmt ?c (?ds ! 0) = Inr overrun_rows"
    by (simp add: example_format_def rows_given_def)
  have h5: "1 < length overrun_rows"
    by (simp add: overrun_rows_def)
  have h6: "overrun_rows ! 1 = map Some [RawPixels [0, 0]] @ Some (RepeatFill 5 0) # []"
    by (simp add: overrun_rows_def)
  have h7: "EndOfRow \<notin> set [RawPixels [0, 0]]"
    by simp
  have h8: "fd_width (?ds ! 0) < sum_list (map count [RawPixels [0, 0]]) + count (RepeatFill 5 0)"
    by simp
  have before: "\<forall>j<1. \<exists>row. interpret_row example_resolver (fd_width (?ds ! 0))
                  (overrun_rows ! j) [] = Inr row"
    by (simp add: overrun_rows_def example_row del: interpret_row.simps)
  have ok: "\<forall>p\<in>set [RawPixels [0, 0]]. \<exists>ps. pixels_of example_resolver p = Inr ps"
    by (simp add: example_resolver_def resolve_def)
  from decode_row_overrun [OF h1 h2 h3 h4 h5 h6 h7 h8, of example_resolver] before ok
  show ?thesis
    by blast
qed

end
